theory Spec2Isabelle
  imports Complex_Main "HOL-Library.Char_ord" "HOL-Library.List_Lexorder"
begin

section \<open>The dashboard script \<open>app.py\<close>: data model\<close>

text \<open>
  The script reads two worksheets into pandas frames, converts their date columns,
  filters them by the sidebar selections and derives the key metrics and the per-user
  view. A frame is modelled as the list of its rows, a row as a record of the columns
  the script reads. The column of dates is a type parameter: text as loaded from the
  sheet, \<open>int option\<close> once converted (seconds since the epoch, \<open>None\<close> for pandas'
  \<open>NaT\<close>). A phone cell is an integer or a text, as the sheet reader returns it.
  Amounts and balances are taken as real numbers. Every frame has the columns below: the
  script indexes them with no test, but for the two date columns, whose conversion it
  skips when the sheet has no such column. A sheet with no data row is read as a frame
  with no column at all; the script then stops with \<open>KeyError\<close> at the first column it
  indexes (see \<open>dashboard\<close> below).
\<close>

datatype cell = IntCell int | StrCell string

record 'ts txn =
  Timestamp :: 'ts
  userName :: string
  phoneNumber :: cell
  ttype :: string
  amount :: real

record 'ts bal =
  Username :: string
  Phone :: cell
  Current_Balance :: real
  Last_Updated :: 'ts

type_synonym txn_row = "int option txn"
type_synonym bal_row = "int option bal"

datatype error = DateParseError string | ZeroDivisionError | KeyError string

section \<open>Date conversion (lines 94-102)\<close>

text \<open>
  \<open>pd.to_datetime\<close> is a library function. Its parser of one text is a parameter
  \<open>parse\<close> with three outcomes: a missing value (\<open>Null\<close>, which becomes \<open>NaT\<close>), a
  date (\<open>Valid\<close>) or a text that is no date (\<open>Invalid\<close>). What happens to an invalid
  text is decided by the \<open>errors\<close> argument the caller passes: \<open>"raise"\<close>, the default,
  raises; \<open>"coerce"\<close> gives \<open>NaT\<close>. With no \<open>format\<close> the library also holds the whole
  column to the one format it infers and raises on a date written in another; that is
  left out, so the conversion below raises only on a text that is no date at all.
\<close>

datatype parsed = Null | Valid int | Invalid

datatype errors_arg = Raise | Coerce

definition to_datetime_cell :: "errors_arg \<Rightarrow> (string \<Rightarrow> parsed) \<Rightarrow> string \<Rightarrow> error + int option" where
  "to_datetime_cell errs parse s =
     (case parse s of
        Null \<Rightarrow> Inr None
      | Valid t \<Rightarrow> Inr (Some t)
      | Invalid \<Rightarrow> (case errs of Raise \<Rightarrow> Inl (DateParseError s) | Coerce \<Rightarrow> Inr None))"

fun to_datetime :: "errors_arg \<Rightarrow> (string \<Rightarrow> parsed) \<Rightarrow> string list \<Rightarrow> error + int option list" where
  "to_datetime errs parse [] = Inr []"
| "to_datetime errs parse (s # ss) =
     (case to_datetime_cell errs parse s of
        Inl e \<Rightarrow> Inl e
      | Inr t \<Rightarrow> (case to_datetime errs parse ss of Inl e \<Rightarrow> Inl e | Inr ts \<Rightarrow> Inr (t # ts)))"

definition set_Timestamp :: "'a txn \<Rightarrow> 'b \<Rightarrow> 'b txn" where
  "set_Timestamp r t =
     \<lparr>Timestamp = t, userName = userName r, phoneNumber = phoneNumber r,
      ttype = ttype r, amount = amount r\<rparr>"

definition set_Last_Updated :: "'a bal \<Rightarrow> 'b \<Rightarrow> 'b bal" where
  "set_Last_Updated b t =
     \<lparr>Username = Username b, Phone = Phone b, Current_Balance = Current_Balance b,
      Last_Updated = t\<rparr>"

text \<open>
  Line 95: \<open>df_transactions["Timestamp"] = pd.to_datetime(df_transactions["Timestamp"])\<close>,
  with no \<open>errors\<close> argument, so the default \<open>"raise"\<close>.
\<close>

definition convert_Timestamp :: "(string \<Rightarrow> parsed) \<Rightarrow> string txn list \<Rightarrow> error + txn_row list" where
  "convert_Timestamp parse df =
     (case to_datetime Raise parse (map Timestamp df) of
        Inl e \<Rightarrow> Inl e
      | Inr ts \<Rightarrow> Inr (map2 set_Timestamp df ts))"

text \<open>
  Lines 98-102: the same call on \<open>"Last Updated"\<close>, with a fixed format (its parser is
  the parameter \<open>parse_fmt\<close>) and \<open>errors="coerce"\<close>.
\<close>

definition convert_Last_Updated :: "(string \<Rightarrow> parsed) \<Rightarrow> string bal list \<Rightarrow> error + bal_row list" where
  "convert_Last_Updated parse_fmt df =
     (case to_datetime Coerce parse_fmt (map Last_Updated df) of
        Inl e \<Rightarrow> Inl e
      | Inr ts \<Rightarrow> Inr (map2 set_Last_Updated df ts))"

text \<open>
  A parser for the examples below: the empty cell is missing, one text is a date, every
  other text is no date. The second is the parser of the fixed format of lines 98-102,
  day/month/year: the same second of 2024-01-01 is written \<open>01/01/2024 10:00:00\<close> there.
\<close>

definition sample_parse :: "string \<Rightarrow> parsed" where
  "sample_parse s =
     (if s = [] then Null
      else if s = ''2024-01-01 10:00:00'' then Valid 1704103200
      else Invalid)"

definition sample_parse_fmt :: "string \<Rightarrow> parsed" where
  "sample_parse_fmt s =
     (if s = [] then Null
      else if s = ''01/01/2024 10:00:00'' then Valid 1704103200
      else Invalid)"

section \<open>The frames the script holds (lines 90-91 and 120-135)\<close>

text \<open>
  The script keeps two variables, \<open>df_transactions\<close> and \<open>df_balances\<close>, each naming a
  frame object. Indexing a frame with a mask (\<open>df[mask]\<close>) builds a new frame object and
  the assignment rebinds the variable to it; assigning a column (\<open>df["c"] = ...\<close>)
  changes the object the variable names, in place. Both are kept apart by a store of
  frame objects, one list for each kind of frame, where the address of an object is its
  position; a variable holds an address.
\<close>

record env =
  txn_frames :: "txn_row list list"
  bal_frames :: "bal_row list list"
  df_transactions :: nat
  df_balances :: nat

definition load :: "txn_row list \<Rightarrow> bal_row list \<Rightarrow> env" where
  "load txs bals =
     \<lparr>txn_frames = [txs], bal_frames = [bals], df_transactions = 0, df_balances = 0\<rparr>"

definition cur_txn :: "env \<Rightarrow> txn_row list" where
  "cur_txn e = txn_frames e ! df_transactions e"

definition cur_bal :: "env \<Rightarrow> bal_row list" where
  "cur_bal e = bal_frames e ! df_balances e"

text \<open>\<open>df_transactions = <new frame>\<close>: a new object, and the variable rebound to it.\<close>

definition assign_df_transactions :: "txn_row list \<Rightarrow> env \<Rightarrow> env" where
  "assign_df_transactions f e =
     e\<lparr>txn_frames := txn_frames e @ [f], df_transactions := length (txn_frames e)\<rparr>"

definition assign_df_balances :: "bal_row list \<Rightarrow> env \<Rightarrow> env" where
  "assign_df_balances f e =
     e\<lparr>bal_frames := bal_frames e @ [f], df_balances := length (bal_frames e)\<rparr>"

section \<open>The filters (lines 120-131)\<close>

text \<open>Lines 120-122: \<open>if selected_users:\<close> is true of a non-empty list.\<close>

definition user_filter :: "string list \<Rightarrow> env \<Rightarrow> env" where
  "user_filter selected_users e =
     (if selected_users \<noteq> [] then
        let e1 = assign_df_transactions
                   (filter (\<lambda>r. userName r \<in> set selected_users) (cur_txn e)) e
        in assign_df_balances
             (filter (\<lambda>b. Username b \<in> set selected_users) (cur_bal e1)) e1
      else e)"

text \<open>Line 124, with no test of \<open>selected_type\<close> before it.\<close>

definition type_filter :: "string list \<Rightarrow> env \<Rightarrow> env" where
  "type_filter selected_type e =
     assign_df_transactions (filter (\<lambda>r. ttype r \<in> set selected_type) (cur_txn e)) e"

text \<open>
  Lines 126-131. A date of the date picker is a day number; \<open>pd.to_datetime\<close> of a date
  is the first second of that day. A comparison with \<open>NaT\<close> is false. Timestamps carry
  no time zone, as the specification has them (on a column of zone-aware timestamps the
  comparison of line 129 raises \<open>TypeError\<close>; that is left out).
\<close>

definition date_to_datetime :: "int \<Rightarrow> int" where
  "date_to_datetime d = 86400 * d"

text \<open>Line 267, \<open>df_transactions["Timestamp"].dt.date\<close>: the day of a timestamp.\<close>

definition dt_date :: "int \<Rightarrow> int" where
  "dt_date t = t div 86400"

definition ts_ge :: "int option \<Rightarrow> int \<Rightarrow> bool" where
  "ts_ge ts t = (case ts of None \<Rightarrow> False | Some v \<Rightarrow> t \<le> v)"

definition ts_le :: "int option \<Rightarrow> int \<Rightarrow> bool" where
  "ts_le ts t = (case ts of None \<Rightarrow> False | Some v \<Rightarrow> v \<le> t)"

definition date_filter :: "int list \<Rightarrow> env \<Rightarrow> env" where
  "date_filter date_range e =
     (if length date_range = 2 then
        let start_date = date_range ! 0; end_date = date_range ! 1
        in assign_df_transactions
             (filter (\<lambda>r. ts_ge (Timestamp r) (date_to_datetime start_date)
                         \<and> ts_le (Timestamp r) (date_to_datetime end_date))
                (cur_txn e)) e
      else e)"

definition apply_filters :: "string list \<Rightarrow> string list \<Rightarrow> int list \<Rightarrow> env \<Rightarrow> env" where
  "apply_filters selected_users selected_type date_range e =
     date_filter date_range (type_filter selected_type (user_filter selected_users e))"

section \<open>Phone columns as text (lines 134-135)\<close>

text \<open>Python's \<open>str\<close> of an integer: decimal digits, with a minus sign when negative.\<close>

definition digit_char :: "nat \<Rightarrow> char" where
  "digit_char d = ''0123456789'' ! d"

fun str_nat :: "nat \<Rightarrow> string" where
  "str_nat n = (if n < 10 then [digit_char n] else str_nat (n div 10) @ [digit_char (n mod 10)])"

declare str_nat.simps [simp del]

definition str_int :: "int \<Rightarrow> string" where
  "str_int i = (if i < 0 then CHR ''-'' # str_nat (nat (- i)) else str_nat (nat i))"

definition astype_str :: "cell \<Rightarrow> cell" where
  "astype_str c = (case c of IntCell i \<Rightarrow> StrCell (str_int i) | StrCell s \<Rightarrow> StrCell s)"

text \<open>Both assignments write a column of the object the variable names at that time.\<close>

definition fix_dtypes :: "env \<Rightarrow> env" where
  "fix_dtypes e =
     (let e1 = e\<lparr>txn_frames := (txn_frames e)[df_transactions e :=
                   map (\<lambda>r. r\<lparr>phoneNumber := astype_str (phoneNumber r)\<rparr>) (cur_txn e)]\<rparr>
      in e1\<lparr>bal_frames := (bal_frames e1)[df_balances e1 :=
                   map (\<lambda>b. b\<lparr>Phone := astype_str (Phone b)\<rparr>) (cur_bal e1)]\<rparr>)"

definition run_filters :: "string list \<Rightarrow> string list \<Rightarrow> int list \<Rightarrow> env \<Rightarrow> env" where
  "run_filters selected_users selected_type date_range e =
     fix_dtypes (apply_filters selected_users selected_type date_range e)"

section \<open>Key metrics (lines 141-175)\<close>

text \<open>
  \<open>len\<close> of a frame is a Python integer, never negative; \<open>Series.sum\<close> of no rows is
  zero. \<open>Series.mean\<close> is the library's: the sum over the count when the count is
  positive, and the float \<open>nan\<close>, pandas' marker of a missing value, otherwise.
\<close>

datatype pyfloat = Float real | NaN

definition mean :: "real list \<Rightarrow> pyfloat" where
  "mean xs = (if length xs > 0 then Float (sum_list xs / real (length xs)) else NaN)"

definition total_users :: "env \<Rightarrow> nat" where
  "total_users e = length (cur_bal e)"

definition total_balance :: "env \<Rightarrow> real" where
  "total_balance e = sum_list (map Current_Balance (cur_bal e))"

definition total_transactions :: "env \<Rightarrow> nat" where
  "total_transactions e = length (cur_txn e)"

definition avg_balance :: "env \<Rightarrow> pyfloat" where
  "avg_balance e = mean (map Current_Balance (cur_bal e))"

definition active_users :: "env \<Rightarrow> nat" where
  "active_users e = length (filter (\<lambda>b. Current_Balance b > 0) (cur_bal e))"

definition positive_transactions :: "env \<Rightarrow> nat" where
  "positive_transactions e = length (filter (\<lambda>r. amount r > 0) (cur_txn e))"

text \<open>Python's \<open>/\<close> on two integers raises \<open>ZeroDivisionError\<close> when the divisor is zero.\<close>

definition true_div :: "nat \<Rightarrow> nat \<Rightarrow> error + real" where
  "true_div a b = (if b = 0 then Inl ZeroDivisionError else Inr (real a / real b))"

text \<open>Line 174: \<open>positive_transactions/total_transactions*100\<close>.\<close>

definition positive_pct :: "env \<Rightarrow> error + real" where
  "positive_pct e =
     (case true_div (positive_transactions e) (total_transactions e) of
        Inl err \<Rightarrow> Inl err
      | Inr q \<Rightarrow> Inr (q * 100))"

record metrics =
  m_total_users :: nat
  m_active_users :: nat
  m_total_balance :: real
  m_avg_balance :: pyfloat
  m_total_transactions :: nat
  m_positive_transactions :: nat
  m_positive_pct :: real

text \<open>The four metric cards in the order of the script; the fourth is the one that can raise.\<close>

definition key_metrics :: "env \<Rightarrow> error + metrics" where
  "key_metrics e =
     (case positive_pct e of
        Inl err \<Rightarrow> Inl err
      | Inr p \<Rightarrow>
          Inr \<lparr>m_total_users = total_users e, m_active_users = active_users e,
               m_total_balance = total_balance e, m_avg_balance = avg_balance e,
               m_total_transactions = total_transactions e,
               m_positive_transactions = positive_transactions e, m_positive_pct = p\<rparr>)"

text \<open>
  The script from the loaded sheets to the metric cards. A sheet with no data row gives
  a frame with no column: for the transactions line 109 (\<open>df_transactions["userName"]\<close>)
  raises \<open>KeyError\<close>; for the balances line 122 does when users are selected, and line 135
  otherwise. No other step between the conversions and the metrics raises.
\<close>

definition dashboard ::
  "(string \<Rightarrow> parsed) \<Rightarrow> (string \<Rightarrow> parsed) \<Rightarrow> string txn list \<Rightarrow> string bal list \<Rightarrow>
   string list \<Rightarrow> string list \<Rightarrow> int list \<Rightarrow> error + metrics" where
  "dashboard parse parse_fmt raw_transactions raw_balances selected_users selected_type date_range =
     (case convert_Timestamp parse raw_transactions of
        Inl err \<Rightarrow> Inl err
      | Inr txs \<Rightarrow>
          (case convert_Last_Updated parse_fmt raw_balances of
             Inl err \<Rightarrow> Inl err
           | Inr bals \<Rightarrow>
               if raw_transactions = [] then Inl (KeyError ''userName'')
               else if raw_balances = [] then
                 Inl (KeyError (if selected_users \<noteq> [] then ''Username'' else ''Phone''))
               else
                 key_metrics (run_filters selected_users selected_type date_range (load txs bals))))"

section \<open>The per-user view (lines 361-368)\<close>

text \<open>
  \<open>groupby("userName")\<close> makes one group for each distinct user name, the groups in
  the sorted order of the names; of each group the script takes the sum and the count of
  \<open>amount\<close> and the first \<open>type\<close>.
\<close>

record summary =
  s_userName :: string
  total_amount :: real
  transaction_count :: nat
  first_type :: string

definition summarise :: "txn_row list \<Rightarrow> string \<Rightarrow> summary" where
  "summarise df u =
     (let g = filter (\<lambda>r. userName r = u) df
      in \<lparr>s_userName = u, total_amount = sum_list (map amount g),
          transaction_count = length g, first_type = ttype (hd g)\<rparr>)"

definition user_summary :: "txn_row list \<Rightarrow> summary list" where
  "user_summary df = map (summarise df) (sort (remdups (map userName df)))"

text \<open>
  \<open>pd.merge(left, right, left_on="userName", right_on="Username", how="left")\<close>: the rows
  of the left frame in their order, each once for every row of the right frame with the
  same key, and once with the right columns null when there is none.
\<close>

record performance =
  p_summary :: summary
  p_balance :: "bal_row option"

definition matches :: "string \<Rightarrow> bal_row list \<Rightarrow> bal_row list" where
  "matches u right = filter (\<lambda>b. Username b = u) right"

definition merge_row :: "bal_row list \<Rightarrow> summary \<Rightarrow> performance list" where
  "merge_row right s =
     (case matches (s_userName s) right of
        [] \<Rightarrow> [\<lparr>p_summary = s, p_balance = None\<rparr>]
      | m # ms \<Rightarrow> map (\<lambda>b. \<lparr>p_summary = s, p_balance = Some b\<rparr>) (m # ms))"

definition merge_left :: "summary list \<Rightarrow> bal_row list \<Rightarrow> performance list" where
  "merge_left left right = concat (map (merge_row right) left)"

definition user_performance :: "env \<Rightarrow> performance list" where
  "user_performance e = merge_left (user_summary (cur_txn e)) (cur_bal e)"

definition rows_of :: "string \<Rightarrow> performance list \<Rightarrow> performance list" where
  "rows_of u perf = filter (\<lambda>p. s_userName (p_summary p) = u) perf"

section \<open>Example sheets\<close>

text \<open>
  The example of the specification, with a third transaction of a user who has no
  balance row and no date: midnight of 2024-01-01 is second 1704067200, and 10 o'clock
  of 2024-01-02 is second 1704189600. Day 19723 is 2024-01-01.
\<close>

definition sample_transactions :: "txn_row list" where
  "sample_transactions =
     [\<lparr>Timestamp = Some 1704067200, userName = ''A'', phoneNumber = IntCell 9167584555,
       ttype = ''credit'', amount = 100\<rparr>,
      \<lparr>Timestamp = Some 1704189600, userName = ''B'', phoneNumber = IntCell 9167584556,
       ttype = ''debit'', amount = -50\<rparr>,
      \<lparr>Timestamp = None, userName = ''C'', phoneNumber = StrCell ''+91-9167584557'',
       ttype = ''credit'', amount = 30\<rparr>]"

definition sample_balances :: "bal_row list" where
  "sample_balances =
     [\<lparr>Username = ''A'', Phone = IntCell 9167584555, Current_Balance = 200,
       Last_Updated = Some 1704103200\<rparr>,
      \<lparr>Username = ''B'', Phone = IntCell 9167584556, Current_Balance = 0,
       Last_Updated = None\<rparr>]"

definition sample_raw_transactions :: "string txn list" where
  "sample_raw_transactions =
     [\<lparr>Timestamp = ''2024-01-01 10:00:00'', userName = ''A'', phoneNumber = IntCell 9167584555,
       ttype = ''credit'', amount = 100\<rparr>,
      \<lparr>Timestamp = [], userName = ''B'', phoneNumber = IntCell 9167584556,
       ttype = ''debit'', amount = -50\<rparr>]"

definition sample_raw_balances :: "string bal list" where
  "sample_raw_balances =
     [\<lparr>Username = ''A'', Phone = IntCell 9167584555, Current_Balance = 200,
       Last_Updated = ''01/01/2024 10:00:00''\<rparr>,
      \<lparr>Username = ''B'', Phone = IntCell 9167584556, Current_Balance = 0,
       Last_Updated = ''not a date''\<rparr>]"

definition view :: "env \<Rightarrow> txn_row list \<times> bal_row list" where
  "view e = (cur_txn e, cur_bal e)"

section \<open>Properties of the date conversion\<close>

lemma to_datetime_Raise_Invalid:
  "s \<in> set ss \<Longrightarrow> parse s = Invalid \<Longrightarrow> \<exists>e. to_datetime Raise parse ss = Inl e"
proof (induction ss)
  case Nil
  then show ?case by simp
next
  case (Cons a ss)
  show ?case
  proof (cases "to_datetime_cell Raise parse a")
    case (Inl e)
    then show ?thesis by simp
  next
    case (Inr t)
    with Cons.prems have "s \<in> set ss"
      by (auto simp: to_datetime_cell_def)
    with Cons.IH Cons.prems(2) obtain e where "to_datetime Raise parse ss = Inl e"
      by blast
    with Inr show ?thesis by simp
  qed
qed

lemma convert_Timestamp_raises:
  "r \<in> set df \<Longrightarrow> parse (Timestamp r) = Invalid \<Longrightarrow> \<exists>e. convert_Timestamp parse df = Inl e"
proof -
  assume "r \<in> set df" and inv: "parse (Timestamp r) = Invalid"
  then have "Timestamp r \<in> set (map Timestamp df)" by simp
  from to_datetime_Raise_Invalid [of "Timestamp r" "map Timestamp df" parse, OF this inv]
  show ?thesis by (auto simp: convert_Timestamp_def)
qed

lemma to_datetime_Coerce_total:
  "\<exists>ts. to_datetime Coerce parse ss = Inr ts \<and> length ts = length ss"
proof (induction ss)
  case Nil
  then show ?case by simp
next
  case (Cons a ss)
  then obtain ts where "to_datetime Coerce parse ss = Inr ts" "length ts = length ss"
    by blast
  then show ?case
    by (cases "parse a") (simp_all add: to_datetime_cell_def)
qed

lemma convert_Last_Updated_total:
  "\<exists>df'. convert_Last_Updated parse_fmt df = Inr df' \<and> length df' = length df"
proof -
  obtain ts where "to_datetime Coerce parse_fmt (map Last_Updated df) = Inr ts"
    and "length ts = length (map Last_Updated df)"
    using to_datetime_Coerce_total by blast
  then show ?thesis by (simp add: convert_Last_Updated_def)
qed

text \<open>
  Claim C3. The claim: converting the \<open>"Timestamp"\<close> column maps each malformed or
  missing value to a null timestamp and never fails on a value of one row. The script
  calls the conversion with the default \<open>errors="raise"\<close>: on a sheet with a row that
  holds the text \<open>not a date\<close> the conversion raises, where the sibling conversion of
  \<open>"Last Updated"\<close> (with \<open>errors="coerce"\<close>) returns a null date for the same text.
\<close>

theorem convert_Timestamp_malformed_raises:
  "convert_Timestamp sample_parse
     (sample_raw_transactions @
      [\<lparr>Timestamp = ''not a date'', userName = ''C'', phoneNumber = StrCell ''+91-9167584557'',
        ttype = ''credit'', amount = 30\<rparr>])
   = Inl (DateParseError ''not a date'')
   \<and> convert_Last_Updated sample_parse_fmt sample_raw_balances
   = Inr [\<lparr>Username = ''A'', Phone = IntCell 9167584555, Current_Balance = 200,
            Last_Updated = Some 1704103200\<rparr>,
          \<lparr>Username = ''B'', Phone = IntCell 9167584556, Current_Balance = 0,
            Last_Updated = None\<rparr>]"
  by (simp add: convert_Timestamp_def convert_Last_Updated_def to_datetime_cell_def
      sample_parse_def sample_parse_fmt_def set_Last_Updated_def sample_raw_transactions_def
      sample_raw_balances_def)

section \<open>The store under assignment\<close>

lemma assign_txn_fields [simp]:
  "txn_frames (assign_df_transactions f e) = txn_frames e @ [f]"
  "df_transactions (assign_df_transactions f e) = length (txn_frames e)"
  "bal_frames (assign_df_transactions f e) = bal_frames e"
  "df_balances (assign_df_transactions f e) = df_balances e"
  by (simp_all add: assign_df_transactions_def)

lemma assign_bal_fields [simp]:
  "bal_frames (assign_df_balances f e) = bal_frames e @ [f]"
  "df_balances (assign_df_balances f e) = length (bal_frames e)"
  "txn_frames (assign_df_balances f e) = txn_frames e"
  "df_transactions (assign_df_balances f e) = df_transactions e"
  by (simp_all add: assign_df_balances_def)

lemma cur_txn_assign_txn [simp]: "cur_txn (assign_df_transactions f e) = f"
  by (simp add: cur_txn_def)

lemma cur_bal_assign_txn [simp]: "cur_bal (assign_df_transactions f e) = cur_bal e"
  by (simp add: cur_bal_def)

lemma cur_bal_assign_bal [simp]: "cur_bal (assign_df_balances f e) = f"
  by (simp add: cur_bal_def)

lemma cur_txn_assign_bal [simp]: "cur_txn (assign_df_balances f e) = cur_txn e"
  by (simp add: cur_txn_def)

lemma cur_txn_load [simp]: "cur_txn (load txs bals) = txs"
  by (simp add: cur_txn_def load_def)

lemma cur_bal_load [simp]: "cur_bal (load txs bals) = bals"
  by (simp add: cur_bal_def load_def)

section \<open>The frames after each filter\<close>

lemma cur_txn_user_filter:
  "cur_txn (user_filter su e) =
     (if su \<noteq> [] then filter (\<lambda>r. userName r \<in> set su) (cur_txn e) else cur_txn e)"
  by (simp add: user_filter_def Let_def)

lemma cur_bal_user_filter:
  "cur_bal (user_filter su e) =
     (if su \<noteq> [] then filter (\<lambda>b. Username b \<in> set su) (cur_bal e) else cur_bal e)"
  by (simp add: user_filter_def Let_def)

lemma cur_txn_type_filter:
  "cur_txn (type_filter st e) = filter (\<lambda>r. ttype r \<in> set st) (cur_txn e)"
  by (simp add: type_filter_def)

lemma cur_bal_type_filter: "cur_bal (type_filter st e) = cur_bal e"
  by (simp add: type_filter_def)

lemma cur_txn_date_filter:
  "cur_txn (date_filter dr e) =
     (if length dr = 2 then
        filter (\<lambda>r. ts_ge (Timestamp r) (date_to_datetime (dr ! 0))
                    \<and> ts_le (Timestamp r) (date_to_datetime (dr ! 1))) (cur_txn e)
      else cur_txn e)"
  by (simp add: date_filter_def Let_def)

lemma cur_bal_date_filter: "cur_bal (date_filter dr e) = cur_bal e"
  by (simp add: date_filter_def Let_def)

lemmas cur_filters = cur_txn_user_filter cur_bal_user_filter cur_txn_type_filter
  cur_bal_type_filter cur_txn_date_filter cur_bal_date_filter

lemma cur_bal_apply_filters:
  "cur_bal (apply_filters su st dr e)
     = (if su \<noteq> [] then filter (\<lambda>b. Username b \<in> set su) (cur_bal e) else cur_bal e)"
  by (simp add: apply_filters_def cur_filters)

subsection \<open>On the example sheets\<close>

lemma sample_user_A:
  "cur_txn (user_filter [''A''] (load sample_transactions sample_balances))
     = [\<lparr>Timestamp = Some 1704067200, userName = ''A'', phoneNumber = IntCell 9167584555,
          ttype = ''credit'', amount = 100\<rparr>]"
  "cur_bal (user_filter [''A''] (load sample_transactions sample_balances))
     = [\<lparr>Username = ''A'', Phone = IntCell 9167584555, Current_Balance = 200,
          Last_Updated = Some 1704103200\<rparr>]"
  by (simp_all add: cur_filters sample_transactions_def sample_balances_def)

lemma sample_type_credit:
  "map userName (cur_txn (type_filter [''credit''] (load sample_transactions sample_balances)))
     = [''A'', ''C'']"
  by (simp add: cur_filters sample_transactions_def)

lemma sample_dates:
  "cur_txn (date_filter [19723, 19724] (load sample_transactions sample_balances))
     = [\<lparr>Timestamp = Some 1704067200, userName = ''A'', phoneNumber = IntCell 9167584555,
          ttype = ''credit'', amount = 100\<rparr>]"
  by (simp add: cur_filters sample_transactions_def ts_ge_def ts_le_def date_to_datetime_def)

section \<open>The filters\<close>

text \<open>
  Claim C4. With a non-empty selection of users, every row of the filtered transactions
  has its \<open>userName\<close> in the selection and every row of the filtered balances has its
  \<open>Username\<close> in the selection (the rows kept are exactly the rows of the frame before
  that are in the selection); with the empty selection the filter changes nothing:
  both variables name the same frames as before.
\<close>

theorem user_filter_members:
  "(selected_users \<noteq> [] \<longrightarrow>
      (\<forall>r \<in> set (cur_txn (user_filter selected_users e)). userName r \<in> set selected_users)
      \<and> (\<forall>b \<in> set (cur_bal (user_filter selected_users e)). Username b \<in> set selected_users)
      \<and> set (cur_txn (user_filter selected_users e))
          = {r \<in> set (cur_txn e). userName r \<in> set selected_users}
      \<and> set (cur_bal (user_filter selected_users e))
          = {b \<in> set (cur_bal e). Username b \<in> set selected_users})
   \<and> user_filter [] e = e"
proof (intro conjI impI)
  show "user_filter [] e = e"
    by (simp add: user_filter_def)
qed (auto simp: cur_filters)

theorem user_filter_members_witness:
  "[''A''] \<noteq> ([] :: string list)
   \<and> map userName (cur_txn (user_filter [''A''] (load sample_transactions sample_balances)))
       = [''A'']
   \<and> map Username (cur_bal (user_filter [''A''] (load sample_transactions sample_balances)))
       = [''A'']
   \<and> view (user_filter [] (load sample_transactions sample_balances))
       = (sample_transactions, sample_balances)"
proof -
  let ?e = "load sample_transactions sample_balances"
  have ne: "[''A''] \<noteq> ([] :: string list)"
    by simp
  from user_filter_members [of "[''A'']" ?e] ne
  have kept: "\<forall>r \<in> set (cur_txn (user_filter [''A''] ?e)). userName r \<in> set [''A'']"
    and same: "user_filter [] ?e = ?e"
    by blast+
  from same have "view (user_filter [] ?e) = (sample_transactions, sample_balances)"
    by (simp add: view_def)
  with kept show ?thesis
    by (simp add: sample_user_A)
qed

text \<open>
  Claim C5. For every selection of types, the empty one too, a row is in the filtered
  transactions exactly when it is a row of the frame before and its \<open>type\<close> is in the
  selection (the rows keep their order and their number of occurrences); with the empty
  selection no row is left.
\<close>

theorem type_filter_members:
  "(\<forall>r. r \<in> set (cur_txn (type_filter selected_type e))
         \<longleftrightarrow> r \<in> set (cur_txn e) \<and> ttype r \<in> set selected_type)
   \<and> cur_txn (type_filter selected_type e)
       = filter (\<lambda>r. ttype r \<in> set selected_type) (cur_txn e)
   \<and> cur_txn (type_filter [] e) = []"
  by (auto simp: cur_filters)

theorem type_filter_members_witness:
  "map userName (cur_txn (type_filter [''credit''] (load sample_transactions sample_balances)))
     = [''A'', ''C'']
   \<and> cur_txn (type_filter [] (load sample_transactions sample_balances)) = []"
proof -
  have "cur_txn (type_filter [] (load sample_transactions sample_balances)) = []"
    using type_filter_members [of "[''credit'']" "load sample_transactions sample_balances"]
    by blast
  then show ?thesis
    by (simp add: sample_type_credit)
qed

text \<open>
  What the date filter keeps. It is applied only when the date range holds two dates.
  When it is applied, a row is kept exactly when its timestamp is not null and lies
  between the first second of the start day and the first second of the end day, both
  included; so no row with a null timestamp is kept and the day of every row kept lies
  between the two dates. The converse fails: see the claim below.
\<close>

lemma date_filter_range:
  "(length date_range \<noteq> 2 \<longrightarrow> date_filter date_range e = e)
   \<and> (\<forall>r. r \<in> set (cur_txn (date_filter [start_date, end_date] e))
          \<longleftrightarrow> r \<in> set (cur_txn e)
              \<and> (\<exists>t. Timestamp r = Some t \<and> date_to_datetime start_date \<le> t
                      \<and> t \<le> date_to_datetime end_date))
   \<and> (\<forall>r \<in> set (cur_txn (date_filter [start_date, end_date] e)). Timestamp r \<noteq> None)
   \<and> (\<forall>r \<in> set (cur_txn (date_filter [start_date, end_date] e)).
         start_date \<le> dt_date (the (Timestamp r)) \<and> dt_date (the (Timestamp r)) \<le> end_date)"
proof (intro conjI)
  show "length date_range \<noteq> 2 \<longrightarrow> date_filter date_range e = e"
    by (simp add: date_filter_def)
  show "\<forall>r. r \<in> set (cur_txn (date_filter [start_date, end_date] e))
          \<longleftrightarrow> r \<in> set (cur_txn e)
              \<and> (\<exists>t. Timestamp r = Some t \<and> date_to_datetime start_date \<le> t
                      \<and> t \<le> date_to_datetime end_date)"
    by (auto simp: cur_filters ts_ge_def ts_le_def split: option.splits)
  show "\<forall>r \<in> set (cur_txn (date_filter [start_date, end_date] e)). Timestamp r \<noteq> None"
    by (auto simp: cur_filters ts_ge_def split: option.splits)
  show "\<forall>r \<in> set (cur_txn (date_filter [start_date, end_date] e)).
         start_date \<le> dt_date (the (Timestamp r)) \<and> dt_date (the (Timestamp r)) \<le> end_date"
    by (auto simp: cur_filters ts_ge_def ts_le_def date_to_datetime_def dt_date_def
        split: option.splits)
qed

text \<open>
  A row of the end day is kept only when its timestamp is the first second of that day.
\<close>

lemma date_filter_end_day:
  "r \<in> set (cur_txn e) \<Longrightarrow> Timestamp r = Some t \<Longrightarrow> dt_date t = end_date \<Longrightarrow>
     start_date \<le> end_date \<Longrightarrow>
     r \<in> set (cur_txn (date_filter [start_date, end_date] e)) \<longleftrightarrow> t = date_to_datetime end_date"
  by (auto simp: cur_filters ts_ge_def ts_le_def date_to_datetime_def dt_date_def)

text \<open>
  Claim C6. The claim: when both dates are given, a row is retained if and only if its
  timestamp is not null and lies in the interval of dates from start to end, both ends
  included. The script compares the timestamp with \<open>pd.to_datetime(end_date)\<close>, the first
  second of the end day, with \<open><=\<close>: a row later on the end day is dropped. In the
  example the rows of A and B are of the days 19723 and 19724 (2024-01-01 and
  2024-01-02, the second at 10 o'clock); with the range from 19723 to 19724 only the row
  of A is retained.
\<close>

theorem date_filter_drops_end_day:
  "map userName sample_transactions = [''A'', ''B'', ''C'']
   \<and> map Timestamp sample_transactions = [Some 1704067200, Some 1704189600, None]
   \<and> map dt_date [1704067200, 1704189600] = [19723, 19724]
   \<and> map userName
        (cur_txn (date_filter [19723, 19724] (load sample_transactions sample_balances)))
       = [''A'']"
  by (simp add: sample_dates) (simp add: sample_transactions_def dt_date_def)

text \<open>
  Claim C7. The user filter and the type filter give the same frames in either order,
  and the date filter gives the same frames whether it runs last (as in the script),
  first, or between the two: after any of these orders both variables name frames with
  the same rows.
\<close>

theorem filters_commute:
  "view (type_filter st (user_filter su e)) = view (user_filter su (type_filter st e))
   \<and> view (date_filter dr (type_filter st (user_filter su e)))
       = view (type_filter st (user_filter su (date_filter dr e)))
   \<and> view (date_filter dr (type_filter st (user_filter su e)))
       = view (type_filter st (date_filter dr (user_filter su e)))"
  by (auto simp: view_def cur_filters conj_commute intro: filter_cong)

theorem filters_commute_witness:
  "view (type_filter [''credit''] (user_filter [''A''] (load sample_transactions sample_balances)))
     = view (user_filter [''A''] (type_filter [''credit''] (load sample_transactions sample_balances)))
   \<and> map userName (cur_txn (user_filter [''A''] (type_filter [''credit'']
         (load sample_transactions sample_balances)))) = [''A'']"
  using filters_commute [of "[''credit'']" "[''A'']" "load sample_transactions sample_balances" "[]"]
  by (simp add: cur_filters sample_transactions_def)

text \<open>
  Claim C10. The type filter and the date filter leave the store of balance frames and
  the variable \<open>df_balances\<close> as they are; the balances after all three filters are the
  balances after the user filter, whatever the selected types and the date range.
\<close>

theorem balances_frame:
  "bal_frames (date_filter dr (type_filter st e)) = bal_frames e
   \<and> df_balances (date_filter dr (type_filter st e)) = df_balances e
   \<and> cur_bal (apply_filters su st dr e) = cur_bal (user_filter su e)
   \<and> cur_bal (apply_filters su st dr e) = cur_bal (apply_filters su st' dr' e)"
  by (simp add: apply_filters_def cur_filters) (simp add: date_filter_def type_filter_def Let_def)

theorem balances_frame_witness:
  "cur_bal (apply_filters [''A''] [] [19723, 19724] (load sample_transactions sample_balances))
     = [\<lparr>Username = ''A'', Phone = IntCell 9167584555, Current_Balance = 200,
          Last_Updated = Some 1704103200\<rparr>]"
  using balances_frame [of "[19723, 19724]" "[]" "load sample_transactions sample_balances" "[''A'']"]
  by (simp add: sample_user_A)

section \<open>The source frames after the filters and the phone columns\<close>

text \<open>After line 124 the variable \<open>df_transactions\<close> names an object made by the filters.\<close>

lemma apply_filters_txn:
  "\<exists>fs. txn_frames (apply_filters su st dr e) = txn_frames e @ fs
        \<and> length (txn_frames e) \<le> df_transactions (apply_filters su st dr e)
        \<and> df_transactions (apply_filters su st dr e) < length (txn_frames e @ fs)"
  by (auto simp: apply_filters_def date_filter_def type_filter_def user_filter_def Let_def)

lemma apply_filters_bal:
  "su \<noteq> [] \<Longrightarrow>
     bal_frames (apply_filters su st dr e)
       = bal_frames e @ [filter (\<lambda>b. Username b \<in> set su) (cur_bal e)]
     \<and> df_balances (apply_filters su st dr e) = length (bal_frames e)"
  by (simp add: apply_filters_def date_filter_def type_filter_def user_filter_def Let_def)

lemma apply_filters_bal_none:
  "bal_frames (apply_filters [] st dr e) = bal_frames e
   \<and> df_balances (apply_filters [] st dr e) = df_balances e"
  by (simp add: apply_filters_def date_filter_def type_filter_def user_filter_def Let_def)

lemma fix_dtypes_fields:
  "txn_frames (fix_dtypes e) = (txn_frames e)[df_transactions e :=
       map (\<lambda>r. r\<lparr>phoneNumber := astype_str (phoneNumber r)\<rparr>) (cur_txn e)]"
  "bal_frames (fix_dtypes e) = (bal_frames e)[df_balances e :=
       map (\<lambda>b. b\<lparr>Phone := astype_str (Phone b)\<rparr>) (cur_bal e)]"
  "df_transactions (fix_dtypes e) = df_transactions e"
  "df_balances (fix_dtypes e) = df_balances e"
  by (simp_all add: fix_dtypes_def Let_def cur_bal_def)

lemma cur_txn_fix_dtypes:
  "df_transactions e < length (txn_frames e) \<Longrightarrow>
     cur_txn (fix_dtypes e)
       = map (\<lambda>r. r\<lparr>phoneNumber := astype_str (phoneNumber r)\<rparr>) (cur_txn e)"
  by (simp add: cur_txn_def fix_dtypes_fields)

lemma cur_bal_fix_dtypes:
  "df_balances e < length (bal_frames e) \<Longrightarrow>
     cur_bal (fix_dtypes e) = map (\<lambda>b. b\<lparr>Phone := astype_str (Phone b)\<rparr>) (cur_bal e)"
  by (simp add: cur_bal_def fix_dtypes_fields)

lemma cur_txn_run_filters:
  "cur_txn (run_filters su st dr e)
     = map (\<lambda>r. r\<lparr>phoneNumber := astype_str (phoneNumber r)\<rparr>)
         (cur_txn (apply_filters su st dr e))"
  using apply_filters_txn [of su st dr e]
  by (auto simp: run_filters_def intro: cur_txn_fix_dtypes)

lemma cur_bal_run_filters:
  "su \<noteq> [] \<or> df_balances e < length (bal_frames e) \<Longrightarrow>
   cur_bal (run_filters su st dr e)
     = map (\<lambda>b. b\<lparr>Phone := astype_str (Phone b)\<rparr>) (cur_bal (apply_filters su st dr e))"
  unfolding run_filters_def
  by (rule cur_bal_fix_dtypes)
    (cases "su = []", simp_all add: apply_filters_bal apply_filters_bal_none)

lemma str_int_samples:
  "str_int 9167584555 = ''9167584555''" "str_int 9167584556 = ''9167584556''"
  by (simp_all add: str_int_def str_nat.simps digit_char_def)

lemma sample_sources:
  "bal_frames (run_filters [] [''credit'', ''debit''] []
      (load sample_transactions sample_balances)) ! 0
     = [\<lparr>Username = ''A'', Phone = StrCell ''9167584555'', Current_Balance = 200,
          Last_Updated = Some 1704103200\<rparr>,
        \<lparr>Username = ''B'', Phone = StrCell ''9167584556'', Current_Balance = 0,
          Last_Updated = None\<rparr>]"
  by (simp add: run_filters_def fix_dtypes_fields apply_filters_bal_none cur_bal_apply_filters)
     (simp add: load_def sample_balances_def astype_str_def str_int_samples)

text \<open>
  Claim C8, as the script has it. The filters and the coercion of the phone columns
  leave every transaction frame that existed before them unchanged, the source frame
  among them. With a non-empty selection of users they leave every balance frame that
  existed before unchanged too. With the empty selection \<open>df_balances\<close> still names the
  source balance frame when line 135 assigns its \<open>"Phone"\<close> column, so that frame is
  written in place: its phone cells become text, every other column and the rows stay.
  The metrics of lines 141-144 only read the frames.
\<close>

theorem run_filters_source_frames:
  "take (length (txn_frames e)) (txn_frames (run_filters su st dr e)) = txn_frames e
   \<and> (su \<noteq> [] \<longrightarrow>
        take (length (bal_frames e)) (bal_frames (run_filters su st dr e)) = bal_frames e)
   \<and> (su = [] \<longrightarrow>
        bal_frames (run_filters su st dr e)
          = (bal_frames e)[df_balances e :=
               map (\<lambda>b. b\<lparr>Phone := astype_str (Phone b)\<rparr>) (cur_bal e)])"
proof (intro conjI impI)
  obtain fs where fs: "txn_frames (apply_filters su st dr e) = txn_frames e @ fs"
    and le: "length (txn_frames e) \<le> df_transactions (apply_filters su st dr e)"
    using apply_filters_txn [of su st dr e] by blast
  show "take (length (txn_frames e)) (txn_frames (run_filters su st dr e)) = txn_frames e"
    using le by (simp add: run_filters_def fix_dtypes_fields fs)
next
  assume "su \<noteq> []"
  from apply_filters_bal [OF this, of st dr e]
  show "take (length (bal_frames e)) (bal_frames (run_filters su st dr e)) = bal_frames e"
    by (simp add: run_filters_def fix_dtypes_fields)
next
  assume "su = []"
  then show "bal_frames (run_filters su st dr e)
          = (bal_frames e)[df_balances e :=
               map (\<lambda>b. b\<lparr>Phone := astype_str (Phone b)\<rparr>) (cur_bal e)]"
    by (simp add: run_filters_def fix_dtypes_fields apply_filters_bal_none cur_bal_def)
qed

theorem run_filters_source_frames_witness:
  "[''A''] \<noteq> ([] :: string list)
   \<and> txn_frames (run_filters [''A''] [''credit'', ''debit''] []
        (load sample_transactions sample_balances)) ! 0 = sample_transactions
   \<and> bal_frames (run_filters [''A''] [''credit'', ''debit''] []
        (load sample_transactions sample_balances)) ! 0 = sample_balances
   \<and> txn_frames (run_filters [] [''credit'', ''debit''] []
        (load sample_transactions sample_balances)) ! 0 = sample_transactions
   \<and> map Phone (bal_frames (run_filters [] [''credit'', ''debit''] []
        (load sample_transactions sample_balances)) ! 0)
       = [StrCell ''9167584555'', StrCell ''9167584556'']"
proof -
  let ?e = "load sample_transactions sample_balances"
  let ?st = "[''credit'', ''debit'']"
  have n: "length (txn_frames ?e) = 1" "length (bal_frames ?e) = 1"
    "txn_frames ?e = [sample_transactions]" "bal_frames ?e = [sample_balances]"
    by (simp_all add: load_def)
  have a: "take 1 (txn_frames (run_filters [''A''] ?st [] ?e)) = [sample_transactions]"
    and b: "take 1 (bal_frames (run_filters [''A''] ?st [] ?e)) = [sample_balances]"
    using run_filters_source_frames [of ?e "[''A'']" ?st "[]"] by (simp_all add: n)
  have c: "take 1 (txn_frames (run_filters [] ?st [] ?e)) = [sample_transactions]"
    using run_filters_source_frames [of ?e "[]" ?st "[]"] by (simp add: n)
  have first: "\<And>xs (x :: 'a). take 1 xs = [x] \<Longrightarrow> xs ! 0 = x"
    by (metis nth_take zero_less_one nth_Cons_0)
  show ?thesis
    using first [OF a] first [OF b] first [OF c] by (simp add: sample_sources)
qed

text \<open>
  The claim as stated fails with the empty selection of users: the source balance frame
  of the example, whose phone cells are integers, is not the same after the run.
\<close>

theorem run_filters_source_frames_counterexample:
  "bal_frames (run_filters [] [''credit'', ''debit''] []
      (load sample_transactions sample_balances)) ! 0
     \<noteq> bal_frames (load sample_transactions sample_balances) ! 0"
  by (simp add: sample_sources) (simp add: load_def sample_balances_def)

section \<open>Key metrics\<close>

lemma positive_pct_no_rows: "cur_txn e = [] \<Longrightarrow> positive_pct e = Inl ZeroDivisionError"
  by (simp add: positive_pct_def true_div_def total_transactions_def)

lemma key_metrics_no_rows: "cur_txn e = [] \<Longrightarrow> key_metrics e = Inl ZeroDivisionError"
  by (simp add: key_metrics_def positive_pct_no_rows)

lemma positive_pct_rows:
  "cur_txn e \<noteq> [] \<Longrightarrow>
     positive_pct e = Inr (real (positive_transactions e) / real (total_transactions e) * 100)"
  by (simp add: positive_pct_def true_div_def total_transactions_def)

lemma cur_txn_no_types: "cur_txn (run_filters su [] dr e) = []"
  by (simp add: cur_txn_run_filters apply_filters_def cur_filters)

lemma sample_converted:
  "convert_Timestamp sample_parse sample_raw_transactions
     = Inr [\<lparr>Timestamp = Some 1704103200, userName = ''A'', phoneNumber = IntCell 9167584555,
              ttype = ''credit'', amount = 100\<rparr>,
            \<lparr>Timestamp = None, userName = ''B'', phoneNumber = IntCell 9167584556,
              ttype = ''debit'', amount = -50\<rparr>]"
  "convert_Last_Updated sample_parse_fmt sample_raw_balances
     = Inr [\<lparr>Username = ''A'', Phone = IntCell 9167584555, Current_Balance = 200,
            Last_Updated = Some 1704103200\<rparr>,
          \<lparr>Username = ''B'', Phone = IntCell 9167584556, Current_Balance = 0,
            Last_Updated = None\<rparr>]"
  by (simp_all add: convert_Timestamp_def convert_Last_Updated_def to_datetime_cell_def
      sample_parse_def sample_parse_fmt_def set_Timestamp_def set_Last_Updated_def
      sample_raw_transactions_def sample_raw_balances_def)

lemma sample_raw_rows: "sample_raw_transactions \<noteq> []" "sample_raw_balances \<noteq> []"
  by (simp_all add: sample_raw_transactions_def sample_raw_balances_def)

text \<open>
  Claim C1. The claim: with no filtered transactions the percentage of positive
  transactions is reported as 0 and nothing is raised. Line 174 divides two Python
  integers with no test of the divisor: with every transaction type deselected no row is
  left and the script stops with \<open>ZeroDivisionError\<close>.
\<close>

theorem dashboard_no_types_raises:
  "dashboard sample_parse sample_parse_fmt sample_raw_transactions sample_raw_balances
     [''A'', ''B''] [] [] = Inl ZeroDivisionError"
  by (simp add: dashboard_def sample_converted sample_raw_rows key_metrics_no_rows
      cur_txn_no_types)

text \<open>
  With no row in the filtered balances \<open>Series.mean\<close> gives \<open>nan\<close> and raises nothing:
  the metric cards are computed, with the average \<open>nan\<close>, whenever the percentage of
  line 174 is.
\<close>

lemma avg_balance_no_rows:
  "total_users e = 0 \<Longrightarrow>
     avg_balance e = NaN
     \<and> key_metrics e =
         (case positive_pct e of
            Inl err \<Rightarrow> Inl err
          | Inr p \<Rightarrow>
              Inr \<lparr>m_total_users = 0, m_active_users = 0, m_total_balance = 0,
                   m_avg_balance = NaN, m_total_transactions = total_transactions e,
                   m_positive_transactions = positive_transactions e, m_positive_pct = p\<rparr>)"
  by (simp add: total_users_def avg_balance_def mean_def key_metrics_def active_users_def
      total_balance_def split: sum.splits)

lemma sample_converted_C:
  "convert_Timestamp sample_parse
     (sample_raw_transactions @
      [\<lparr>Timestamp = [], userName = ''C'', phoneNumber = StrCell ''+91-9167584557'',
        ttype = ''credit'', amount = 30\<rparr>])
     = Inr [\<lparr>Timestamp = Some 1704103200, userName = ''A'', phoneNumber = IntCell 9167584555,
              ttype = ''credit'', amount = 100\<rparr>,
            \<lparr>Timestamp = None, userName = ''B'', phoneNumber = IntCell 9167584556,
              ttype = ''debit'', amount = -50\<rparr>,
            \<lparr>Timestamp = None, userName = ''C'', phoneNumber = StrCell ''+91-9167584557'',
              ttype = ''credit'', amount = 30\<rparr>]"
  by (simp add: convert_Timestamp_def to_datetime_cell_def sample_parse_def set_Timestamp_def
      sample_raw_transactions_def)

lemma sample_run_C:
  "cur_txn (run_filters [''C''] [''credit''] []
      (load [\<lparr>Timestamp = Some 1704103200, userName = ''A'', phoneNumber = IntCell 9167584555,
               ttype = ''credit'', amount = 100\<rparr>,
             \<lparr>Timestamp = None, userName = ''B'', phoneNumber = IntCell 9167584556,
               ttype = ''debit'', amount = -50\<rparr>,
             \<lparr>Timestamp = None, userName = ''C'', phoneNumber = StrCell ''+91-9167584557'',
               ttype = ''credit'', amount = 30\<rparr>]
            [\<lparr>Username = ''A'', Phone = IntCell 9167584555, Current_Balance = 200,
               Last_Updated = Some 1704103200\<rparr>,
             \<lparr>Username = ''B'', Phone = IntCell 9167584556, Current_Balance = 0,
               Last_Updated = None\<rparr>]))
     = [\<lparr>Timestamp = None, userName = ''C'', phoneNumber = StrCell ''+91-9167584557'',
          ttype = ''credit'', amount = 30\<rparr>]"
  "cur_bal (run_filters [''C''] [''credit''] []
      (load [\<lparr>Timestamp = Some 1704103200, userName = ''A'', phoneNumber = IntCell 9167584555,
               ttype = ''credit'', amount = 100\<rparr>,
             \<lparr>Timestamp = None, userName = ''B'', phoneNumber = IntCell 9167584556,
               ttype = ''debit'', amount = -50\<rparr>,
             \<lparr>Timestamp = None, userName = ''C'', phoneNumber = StrCell ''+91-9167584557'',
               ttype = ''credit'', amount = 30\<rparr>]
            [\<lparr>Username = ''A'', Phone = IntCell 9167584555, Current_Balance = 200,
               Last_Updated = Some 1704103200\<rparr>,
             \<lparr>Username = ''B'', Phone = IntCell 9167584556, Current_Balance = 0,
               Last_Updated = None\<rparr>]))
     = []"
  by (simp_all add: cur_txn_run_filters cur_bal_run_filters cur_bal_apply_filters
      apply_filters_def cur_filters astype_str_def)

text \<open>
  Claim C2. The claim: with no row in the filtered balances the average balance is
  reported as zero or as an explicit marker of no data, and nothing is raised. Line 144
  takes \<open>Series.mean\<close> with no test of the number of rows, and line 160 formats the result
  as an amount: with user C selected, who has a transaction and no balance row, nothing
  is raised, but the average on the card is the float \<open>nan\<close>, neither zero nor a marker
  of the script's, next to a total balance of zero.
\<close>

theorem dashboard_no_balance_rows_nan:
  "dashboard sample_parse sample_parse_fmt
     (sample_raw_transactions @
      [\<lparr>Timestamp = [], userName = ''C'', phoneNumber = StrCell ''+91-9167584557'',
        ttype = ''credit'', amount = 30\<rparr>])
     sample_raw_balances [''C''] [''credit''] []
   = Inr \<lparr>m_total_users = 0, m_active_users = 0, m_total_balance = 0,
          m_avg_balance = NaN, m_total_transactions = 1,
          m_positive_transactions = 1, m_positive_pct = 100\<rparr>"
proof -
  let ?e = "run_filters [''C''] [''credit''] []
      (load [\<lparr>Timestamp = Some 1704103200, userName = ''A'', phoneNumber = IntCell 9167584555,
               ttype = ''credit'', amount = 100\<rparr>,
             \<lparr>Timestamp = None, userName = ''B'', phoneNumber = IntCell 9167584556,
               ttype = ''debit'', amount = -50\<rparr>,
             \<lparr>Timestamp = None, userName = ''C'', phoneNumber = StrCell ''+91-9167584557'',
               ttype = ''credit'', amount = 30\<rparr>]
            [\<lparr>Username = ''A'', Phone = IntCell 9167584555, Current_Balance = 200,
               Last_Updated = Some 1704103200\<rparr>,
             \<lparr>Username = ''B'', Phone = IntCell 9167584556, Current_Balance = 0,
               Last_Updated = None\<rparr>])"
  have z: "total_users ?e = 0"
    by (simp add: total_users_def sample_run_C)
  have p: "positive_pct ?e = Inr 100"
    by (simp add: positive_pct_def true_div_def positive_transactions_def total_transactions_def
        sample_run_C)
  have t: "total_transactions ?e = 1" "positive_transactions ?e = 1"
    by (simp_all add: positive_transactions_def total_transactions_def sample_run_C)
  from avg_balance_no_rows [OF z]
  have "key_metrics ?e
      = Inr \<lparr>m_total_users = 0, m_active_users = 0, m_total_balance = 0,
             m_avg_balance = NaN, m_total_transactions = 1,
             m_positive_transactions = 1, m_positive_pct = 100\<rparr>"
    by (simp add: p t)
  then show ?thesis
    by (simp add: dashboard_def sample_converted_C sample_converted sample_raw_rows)
qed

section \<open>The per-user view\<close>

lemma rows_of_append: "rows_of u (xs @ ys) = rows_of u xs @ rows_of u ys"
  by (simp add: rows_of_def)

lemma merge_row_summary: "p \<in> set (merge_row right s) \<Longrightarrow> p_summary p = s"
  by (auto simp: merge_row_def split: list.splits)

lemma s_userName_summarise [simp]: "s_userName (summarise df k) = k"
  by (simp add: summarise_def Let_def)

lemma rows_of_merge_row:
  "rows_of u (merge_row right (summarise df k))
     = (if k = u then merge_row right (summarise df k) else [])"
proof -
  have "\<forall>p \<in> set (merge_row right (summarise df k)). s_userName (p_summary p) = k"
    by (auto dest: merge_row_summary)
  then show ?thesis
    by (auto simp: rows_of_def filter_empty_conv filter_id_conv)
qed

lemma merge_left_Cons: "merge_left (s # ss) right = merge_row right s @ merge_left ss right"
  by (simp add: merge_left_def)

lemma rows_of_merge_left:
  "distinct ks \<Longrightarrow>
     rows_of u (merge_left (map (summarise df) ks) right)
       = (if u \<in> set ks then merge_row right (summarise df u) else [])"
proof (induction ks)
  case Nil
  then show ?case by (simp add: merge_left_def rows_of_def)
next
  case (Cons k ks)
  then show ?case
    by (auto simp: merge_left_Cons rows_of_append rows_of_merge_row)
qed

lemma rows_of_user_performance:
  "rows_of u (user_performance e)
     = (if u \<in> set (map userName (cur_txn e))
        then merge_row (cur_bal e) (summarise (cur_txn e) u) else [])"
  by (simp add: user_performance_def user_summary_def rows_of_merge_left)

lemma length_merge_row:
  "length (merge_row right s) = max 1 (length (matches (s_userName s) right))"
  by (simp add: merge_row_def split: list.splits)

lemma sample_summary_C:
  "summarise sample_transactions ''C''
     = \<lparr>s_userName = ''C'', total_amount = 30, transaction_count = 1, first_type = ''credit''\<rparr>"
  by (simp add: summarise_def sample_transactions_def)

text \<open>
  Claim C9, as the script has it. The per-user view is the left join of the per-user
  aggregates (sum and count of \<open>amount\<close>, first \<open>type\<close>, one group for each \<open>userName\<close>) with
  the balance rows of the same \<open>Username\<close>. A user of the filtered transactions has one
  row in the view for each balance row of that name, and one row with null balance
  fields when there is none; so the user appears exactly once when at most one balance
  row carries the name. Every row of the user carries the aggregates of the user.
\<close>

theorem user_performance_left_join:
  "u \<in> set (map userName (cur_txn e)) \<Longrightarrow>
     length (rows_of u (user_performance e)) = max 1 (length (matches u (cur_bal e)))
     \<and> (\<forall>p \<in> set (rows_of u (user_performance e)). p_summary p = summarise (cur_txn e) u)
     \<and> (matches u (cur_bal e) = [] \<longrightarrow>
          rows_of u (user_performance e)
            = [\<lparr>p_summary = summarise (cur_txn e) u, p_balance = None\<rparr>])
     \<and> (matches u (cur_bal e) \<noteq> [] \<longrightarrow>
          map p_balance (rows_of u (user_performance e)) = map Some (matches u (cur_bal e)))
     \<and> (length (matches u (cur_bal e)) \<le> 1 \<longrightarrow> length (rows_of u (user_performance e)) = 1)"
proof -
  assume u: "u \<in> set (map userName (cur_txn e))"
  then have r: "rows_of u (user_performance e) = merge_row (cur_bal e) (summarise (cur_txn e) u)"
    by (simp add: rows_of_user_performance)
  show ?thesis
    unfolding r
    by (auto simp: length_merge_row dest: merge_row_summary)
       (auto simp: merge_row_def split: list.splits)
qed

theorem user_performance_left_join_witness:
  "''C'' \<in> set (map userName (cur_txn (load sample_transactions sample_balances)))
   \<and> matches ''C'' (cur_bal (load sample_transactions sample_balances)) = []
   \<and> rows_of ''C'' (user_performance (load sample_transactions sample_balances))
       = [\<lparr>p_summary = \<lparr>s_userName = ''C'', total_amount = 30, transaction_count = 1,
                          first_type = ''credit''\<rparr>,
           p_balance = None\<rparr>]
   \<and> length (rows_of ''C'' (user_performance (load sample_transactions sample_balances))) = 1"
proof -
  let ?e = "load sample_transactions sample_balances"
  have u: "''C'' \<in> set (map userName (cur_txn ?e))"
    by (simp add: sample_transactions_def)
  have m: "matches ''C'' (cur_bal ?e) = []"
    by (simp add: matches_def sample_balances_def)
  from user_performance_left_join [OF u] m
  have "rows_of ''C'' (user_performance ?e)
      = [\<lparr>p_summary = summarise (cur_txn ?e) ''C'', p_balance = None\<rparr>]"
    by blast
  then have "rows_of ''C'' (user_performance ?e)
      = [\<lparr>p_summary = \<lparr>s_userName = ''C'', total_amount = 30, transaction_count = 1,
                          first_type = ''credit''\<rparr>,
           p_balance = None\<rparr>]"
    by (simp add: sample_summary_C)
  with u m show ?thesis
    by simp
qed

text \<open>
  The claim as stated fails when two balance rows carry the same name: user \<open>A\<close> of the
  example, given a second balance row, has two rows in the view.
\<close>

theorem user_performance_left_join_counterexample:
  "length (rows_of ''A'' (user_performance (load sample_transactions
      (sample_balances @ [\<lparr>Username = ''A'', Phone = StrCell ''+91-9167584555'',
                           Current_Balance = 50, Last_Updated = None\<rparr>])))) = 2"
  by (simp add: rows_of_user_performance length_merge_row)
     (simp add: sample_transactions_def sample_balances_def matches_def)

end
